theory Spec2Isabelle
  imports Complex_Main "HOL-Library.Multiset" "HOL-Library.Word"
begin

text \<open>
  A shallow embedding of the goal-tracking application. The sources hold three versions
  of the server and two of the client:
  \<^item> the first server, \<^verbatim>\<open>src/server.js\<close> lines 1 to 187: PostgreSQL or SQLite, one
    goal table without users;
  \<^item> the Supabase server, \<^verbatim>\<open>src/server.js\<close> lines 188 to 399: Supabase or SQLite, goals
    stored per username;
  \<^item> the authenticated server, \<^verbatim>\<open>src/db-check.js\<close> lines 33 to 360: the same goal
    handlers, with registration and login;
  \<^item> \<^verbatim>\<open>src/src/App.jsx\<close>, the client of the first server (definitions with the suffix
    \<open>_jsx\<close> or \<open>0\<close>);
  \<^item> the client with login, \<^verbatim>\<open>src/unnamed/part_000\<close>.
\<close>

section \<open>JSON values and the JavaScript primitives the handlers use\<close>

text \<open>
  Request bodies, goals and stored columns are JSON values. Numbers are the integers
  (goal ids are \<^verbatim>\<open>Date.now()\<close> values); numbers with a fraction are outside the model.
  An object is the list of its properties in insertion order. A property that is absent
  reads as \<^verbatim>\<open>undefined\<close>, modelled by \<open>None\<close>.
\<close>

datatype json =
    JNull
  | JBool bool
  | JNum int
  | JStr string
  | JArr "json list"
  | JObj "(string \<times> json) list"

type_synonym obj = "(string \<times> json) list"

text \<open>
  What the JavaScript engine and the database drivers do outside the part that the model
  computes is a parameter of the model, and every theorem holds for all its values:
  \<^item> \<open>num_text n\<close>: \<^verbatim>\<open>String(n)\<close> for a number above \<open>2^53\<close> in magnitude (below, every
    integer is a number of the engine and \<^verbatim>\<open>String\<close> writes its decimal digits);
  \<^item> \<open>text_of v\<close>: what a \<^verbatim>\<open>TEXT\<close> column holds after the value \<open>v\<close>, neither a string
    nor \<^verbatim>\<open>null\<close>, was passed to the driver (\<open>None\<close> is \<^verbatim>\<open>NULL\<close>);
  \<^item> \<open>completed_of v\<close>: what the \<open>completed\<close> column returns after the value \<open>v\<close>,
    neither a boolean nor \<^verbatim>\<open>null\<close>, was passed to the driver;
  \<^item> \<open>exceeds3 v\<close>: the value of \<^verbatim>\<open>v > 3\<close> for a \<open>v\<close> that is not a number, a
    boolean or \<^verbatim>\<open>null\<close>; \<open>None\<close> when the conversion of \<open>v\<close> to a number throws.
\<close>

record runtime =
  num_text :: "int \<Rightarrow> string"
  text_of :: "json \<Rightarrow> string option"
  completed_of :: "json \<Rightarrow> json"
  exceeds3 :: "json \<Rightarrow> bool option"

text \<open>Property read \<^verbatim>\<open>o[k]\<close>.\<close>

definition get_prop :: "obj \<Rightarrow> string \<Rightarrow> json option" where
  "get_prop ob k = map_of ob k"

text \<open>Property write \<^verbatim>\<open>o[k] = v\<close>: an existing key keeps its place.\<close>

fun obj_set :: "string \<Rightarrow> json \<Rightarrow> obj \<Rightarrow> obj" where
  "obj_set k v [] = [(k, v)]"
| "obj_set k v ((k', v') # ps) =
     (if k' = k then (k, v) # ps else (k', v') # obj_set k v ps)"

text \<open>Object spread \<^verbatim>\<open>{...a, ...b}\<close>: the properties of \<open>b\<close> are written over \<open>a\<close>.\<close>

definition spread :: "obj \<Rightarrow> obj \<Rightarrow> obj" where
  "spread a b = foldl (\<lambda>acc (k, v). obj_set k v acc) a b"

text \<open>JavaScript truthiness, \<^verbatim>\<open>Boolean(v)\<close> and \<^verbatim>\<open>!v\<close>.\<close>

fun truthy :: "json \<Rightarrow> bool" where
  "truthy JNull = False"
| "truthy (JBool b) = b"
| "truthy (JNum n) = (n \<noteq> 0)"
| "truthy (JStr s) = (s \<noteq> [])"
| "truthy (JArr _) = True"
| "truthy (JObj _) = True"

definition truthy_opt :: "json option \<Rightarrow> bool" where
  "truthy_opt v = (case v of None \<Rightarrow> False | Some x \<Rightarrow> truthy x)"

text \<open>The decimal digits of an integer.\<close>

definition digit_char :: "nat \<Rightarrow> char" where
  "digit_char d = char_of (48 + d)"

fun string_of_nat :: "nat \<Rightarrow> string" where
  "string_of_nat n =
     (if n < 10 then [digit_char n]
      else string_of_nat (n div 10) @ [digit_char (n mod 10)])"

definition string_of_int :: "int \<Rightarrow> string" where
  "string_of_int i =
     (if i < 0 then CHR ''-'' # string_of_nat (nat (- i)) else string_of_nat (nat i))"

text \<open>\<^verbatim>\<open>String(n)\<close> for a number.\<close>

definition String_num :: "runtime \<Rightarrow> int \<Rightarrow> string" where
  "String_num rt n =
     (if \<bar>n\<bar> \<le> 9007199254740992 then string_of_int n else num_text rt n)"

fun join_comma :: "string list \<Rightarrow> string" where
  "join_comma [] = []"
| "join_comma [s] = s"
| "join_comma (s # t # ss) = s @ '','' @ join_comma (t # ss)"

text \<open>\<^verbatim>\<open>String(v)\<close>; an array joins its elements with commas, \<^verbatim>\<open>null\<close> elements
  rendering as the empty string.\<close>

fun String_js :: "runtime \<Rightarrow> json \<Rightarrow> string" where
  "String_js rt JNull = ''null''"
| "String_js rt (JBool b) = (if b then ''true'' else ''false'')"
| "String_js rt (JNum n) = String_num rt n"
| "String_js rt (JStr s) = s"
| "String_js rt (JArr xs) =
     join_comma (map (\<lambda>x. if x = JNull then [] else String_js rt x) xs)"
| "String_js rt (JObj _) = ''[object Object]''"

definition String_opt :: "runtime \<Rightarrow> json option \<Rightarrow> string" where
  "String_opt rt v = (case v of None \<Rightarrow> ''undefined'' | Some x \<Rightarrow> String_js rt x)"


section \<open>The goal store\<close>

text \<open>
  A stored row has the fixed columns and the \<open>data\<close> column. The columns \<open>text\<close>,
  \<open>category\<close> and \<open>created_at\<close> are \<^verbatim>\<open>TEXT\<close>: they hold a text or \<^verbatim>\<open>NULL\<close> (\<open>None\<close>).
  The \<open>completed\<close> column holds what the driver returns for it. The \<open>data\<close> column
  holds the JSON object the handler writes (\<^verbatim>\<open>JSON.stringify\<close> on write and
  \<^verbatim>\<open>JSON.parse\<close> on read, for SQLite, are taken to return the object written; the order
  of its properties plays no part in any theorem); \<open>None\<close> is a \<^verbatim>\<open>NULL\<close> column. The
  first server has no \<open>username\<close> column; the two later servers add it.
\<close>

record row0 =
  r_id :: string
  r_text :: "string option"
  r_category :: "string option"
  r_completed :: json
  r_created_at :: "string option"
  r_data :: "obj option"

record row = row0 +
  r_username :: string

record user_row =
  u_id :: string
  u_username :: string
  u_password_hash :: string
  u_salt :: string
  u_created_at :: string

datatype backend = Supabase | Sqlite

record db =
  db_type :: backend
  goals_tbl :: "row list"
  users_tbl :: "user_row list"

datatype backend0 = Postgres | Sqlite0

record db0 =
  db0_type :: backend0
  goals0_tbl :: "row0 list"

text \<open>The body of an error response: a fixed text of the handler, the message of an
  exception of the JavaScript engine, or the message of a database error.\<close>

datatype err_msg = Msg string | EngineMsg | BackendMsg

datatype http_error = HttpError nat err_msg

text \<open>\<^verbatim>\<open>const { id, text, category, completed, createdAt, ...rest } = g\<close>\<close>

definition fixed_keys :: "string list" where
  "fixed_keys = [''id'', ''text'', ''category'', ''completed'', ''createdAt'']"

definition rest_of :: "obj \<Rightarrow> obj" where
  "rest_of ob = filter (\<lambda>(k, v). k \<notin> set fixed_keys) ob"

definition col :: "json option \<Rightarrow> json" where
  "col v = (case v of None \<Rightarrow> JNull | Some x \<Rightarrow> x)"

definition index_props :: "json list \<Rightarrow> obj" where
  "index_props xs = map (\<lambda>(i, x). (string_of_nat i, x)) (enumerate 0 xs)"

text \<open>Destructuring an element of the goal list. \<^verbatim>\<open>null\<close> throws a TypeError (\<open>None\<close>);
  a number or boolean has no own properties; a string or an array has its indices.\<close>

fun destructure :: "json \<Rightarrow> obj option" where
  "destructure JNull = None"
| "destructure (JBool _) = Some []"
| "destructure (JNum _) = Some []"
| "destructure (JStr s) = Some (index_props (map (\<lambda>c. JStr [c]) s))"
| "destructure (JArr xs) = Some (index_props xs)"
| "destructure (JObj ob) = Some ob"

text \<open>What a \<^verbatim>\<open>TEXT\<close> column holds after a value was written to it: a string as it is,
  \<^verbatim>\<open>undefined\<close> and \<^verbatim>\<open>null\<close> as \<^verbatim>\<open>NULL\<close>.\<close>

definition text_col :: "runtime \<Rightarrow> json option \<Rightarrow> string option" where
  "text_col rt v =
     (case v of
        None \<Rightarrow> None
      | Some JNull \<Rightarrow> None
      | Some (JStr s) \<Rightarrow> Some s
      | Some x \<Rightarrow> text_of rt x)"

text \<open>What the \<open>completed\<close> column returns after a value was written to it. SQLite has
  no boolean type: its driver writes \<^verbatim>\<open>true\<close> and \<^verbatim>\<open>false\<close> as 1 and 0, and the
  handlers read the column through \<^verbatim>\<open>Boolean(...)\<close>. PostgreSQL and Supabase return the
  boolean.\<close>

definition completed_col :: "runtime \<Rightarrow> bool \<Rightarrow> json option \<Rightarrow> json" where
  "completed_col rt sqlite v =
     (case v of
        None \<Rightarrow> JNull
      | Some JNull \<Rightarrow> JNull
      | Some (JBool b) \<Rightarrow> (if sqlite then JNum (if b then 1 else 0) else JBool b)
      | Some x \<Rightarrow> completed_of rt x)"

text \<open>The row a handler writes for a goal; \<open>sqlite\<close> tells the backend.\<close>

definition mk_row0 :: "runtime \<Rightarrow> bool \<Rightarrow> obj \<Rightarrow> row0" where
  "mk_row0 rt sqlite ob =
     \<lparr> r_id = String_opt rt (get_prop ob ''id''),
       r_text = text_col rt (get_prop ob ''text''),
       r_category = text_col rt (get_prop ob ''category''),
       r_completed = completed_col rt sqlite (get_prop ob ''completed''),
       r_created_at = text_col rt (get_prop ob ''createdAt''),
       r_data = Some (rest_of ob) \<rparr>"

definition mk_row :: "runtime \<Rightarrow> bool \<Rightarrow> string \<Rightarrow> obj \<Rightarrow> row" where
  "mk_row rt sqlite username ob =
     \<lparr> r_id = String_opt rt (get_prop ob ''id''),
       r_text = text_col rt (get_prop ob ''text''),
       r_category = text_col rt (get_prop ob ''category''),
       r_completed = completed_col rt sqlite (get_prop ob ''completed''),
       r_created_at = text_col rt (get_prop ob ''createdAt''),
       r_data = Some (rest_of ob),
       r_username = username \<rparr>"

text \<open>\<^verbatim>\<open>ORDER BY created_at DESC\<close> on a text column: insertion into a list that is kept
  in descending order. Texts are compared byte by byte; \<^verbatim>\<open>NULL\<close> comes last in SQLite
  and first in PostgreSQL and Supabase (\<open>nulls_first\<close>). The place of a row among rows
  with an equal key is not fixed by the query; the model puts it first.\<close>

fun str_less :: "string \<Rightarrow> string \<Rightarrow> bool" where
  "str_less [] [] = False"
| "str_less [] (b # bs) = True"
| "str_less (a # as) [] = False"
| "str_less (a # as) (b # bs) =
     (if (of_char a :: nat) < of_char b then True
      else if (of_char b :: nat) < of_char a then False
      else str_less as bs)"

text \<open>\<open>desc_before nulls_first a b\<close>: a row with key \<open>a\<close> comes before one with key
  \<open>b\<close>.\<close>

fun desc_before :: "bool \<Rightarrow> string option \<Rightarrow> string option \<Rightarrow> bool" where
  "desc_before nulls_first None None = False"
| "desc_before nulls_first None (Some b) = nulls_first"
| "desc_before nulls_first (Some a) None = (\<not> nulls_first)"
| "desc_before nulls_first (Some a) (Some b) = str_less b a"

fun ins_desc :: "bool \<Rightarrow> ('a \<Rightarrow> string option) \<Rightarrow> 'a \<Rightarrow> 'a list \<Rightarrow> 'a list" where
  "ins_desc nulls_first key r [] = [r]"
| "ins_desc nulls_first key r (x # xs) =
     (if desc_before nulls_first (key x) (key r)
      then x # ins_desc nulls_first key r xs else r # x # xs)"

definition order_desc :: "bool \<Rightarrow> ('a \<Rightarrow> string option) \<Rightarrow> 'a list \<Rightarrow> 'a list" where
  "order_desc nulls_first key rs = foldr (ins_desc nulls_first key) rs []"

text \<open>\<^verbatim>\<open>id TEXT PRIMARY KEY\<close>: an insert whose id is taken fails.\<close>

definition pk_free :: "string \<Rightarrow> ('a::type) row0_scheme list \<Rightarrow> bool" where
  "pk_free i tbl = (i \<notin> set (map r_id tbl))"

text \<open>
  The SQLite branches queue \<^verbatim>\<open>stmt.run(...)\<close> once per goal, without a callback. The
  queued inserts run one after the other once the handler has answered. An insert that
  fails has no callback to report to: the statement emits an \<^verbatim>\<open>'error'\<close> event that
  nothing listens to, and the server process exits; the inserts queued behind it do not
  run. The result is the table and whether the process exits.
\<close>

fun run_inserts :: "('a::type) row0_scheme list \<Rightarrow> 'a row0_scheme list \<Rightarrow> 'a row0_scheme list \<times> bool" where
  "run_inserts [] tbl = (tbl, False)"
| "run_inserts (r # rs) tbl =
     (if pk_free (r_id r) tbl then run_inserts rs (tbl @ [r]) else (tbl, True))"

text \<open>The bulk insert of Supabase is one statement: it stores all rows or, when an id
  is taken or repeated, none and reports an error. The Supabase tables are created
  outside the repository; they are taken to have the columns and the keys of the SQLite
  tables the servers create, with \<open>completed\<close> a boolean and \<open>data\<close> a JSON
  column.\<close>

definition insert_bulk :: "row list \<Rightarrow> row list \<Rightarrow> row list option" where
  "insert_bulk rs tbl =
     (if distinct (map r_id rs) \<and> (\<forall>r \<in> set rs. pk_free (r_id r) tbl)
      then Some (tbl @ rs) else None)"


section \<open>The goal endpoints\<close>

text \<open>The object a \<^verbatim>\<open>GET\<close> handler builds from a row:
  \<^verbatim>\<open>{ id, text, category, completed, createdAt, ...data }\<close>. The SQLite branches read
  \<open>completed\<close> through \<^verbatim>\<open>Boolean(...)\<close>.\<close>

definition text_json :: "string option \<Rightarrow> json" where
  "text_json v = (case v of None \<Rightarrow> JNull | Some s \<Rightarrow> JStr s)"

definition goal_of_row :: "bool \<Rightarrow> ('a::type) row0_scheme \<Rightarrow> obj" where
  "goal_of_row coerce r =
     spread
       [(''id'', JStr (r_id r)),
        (''text'', text_json (r_text r)),
        (''category'', text_json (r_category r)),
        (''completed'', if coerce then JBool (truthy (r_completed r)) else r_completed r),
        (''createdAt'', text_json (r_created_at r))]
       (case r_data r of None \<Rightarrow> [] | Some ob \<Rightarrow> ob)"

text \<open>\<^verbatim>\<open>Array.isArray(goals) ? goals : []\<close> of the two later servers.\<close>

definition goal_list :: "json option \<Rightarrow> json list" where
  "goal_list goals = (case goals of Some (JArr xs) \<Rightarrow> xs | _ \<Rightarrow> [])"

text \<open>\<^verbatim>\<open>goalList.map(g => ...)\<close> of the Supabase branch; \<open>None\<close> when destructuring
  throws.\<close>

fun rows_of :: "runtime \<Rightarrow> string \<Rightarrow> json list \<Rightarrow> row list option" where
  "rows_of rt u [] = Some []"
| "rows_of rt u (g # gs) =
     (case destructure g of
        None \<Rightarrow> None
      | Some ob \<Rightarrow>
          (case rows_of rt u gs of None \<Rightarrow> None | Some rs \<Rightarrow> Some (mk_row rt False u ob # rs)))"

text \<open>\<^verbatim>\<open>goalList.forEach(g => stmt.run(...))\<close> of the SQLite branch: the rows whose
  insert is queued, and whether destructuring threw (the inserts queued before that
  still run).\<close>

fun queue_rows :: "runtime \<Rightarrow> string \<Rightarrow> json list \<Rightarrow> row list \<times> bool" where
  "queue_rows rt u [] = ([], False)"
| "queue_rows rt u (g # gs) =
     (case destructure g of
        None \<Rightarrow> ([], True)
      | Some ob \<Rightarrow> (case queue_rows rt u gs of (rs, threw) \<Rightarrow> (mk_row rt True u ob # rs, threw)))"

datatype post_ok = StatusSuccess

text \<open>What a \<^verbatim>\<open>POST\<close> handler does: its response, the database once every queued
  statement has run, and whether the server process exits after the response.\<close>

record 'd post_result =
  response :: "http_error + post_ok"
  db_after :: 'd
  exits :: bool

definition post_supabase :: "runtime \<Rightarrow> db \<Rightarrow> string \<Rightarrow> json list \<Rightarrow> (db option) post_result" where
  "post_supabase rt d u goalList =
     (let deleted = filter (\<lambda>r. r_username r \<noteq> u) (goals_tbl d)
      in (case rows_of rt u goalList of
            None \<Rightarrow>
              \<lparr> response = Inl (HttpError 500 EngineMsg),
                db_after = Some (d\<lparr>goals_tbl := deleted\<rparr>), exits = False \<rparr>
          | Some rowsToInsert \<Rightarrow>
              if rowsToInsert \<noteq> [] then
                (case insert_bulk rowsToInsert deleted of
                   None \<Rightarrow>
                     \<lparr> response = Inl (HttpError 500 BackendMsg),
                       db_after = Some (d\<lparr>goals_tbl := deleted\<rparr>), exits = False \<rparr>
                 | Some tbl \<Rightarrow>
                     \<lparr> response = Inr StatusSuccess,
                       db_after = Some (d\<lparr>goals_tbl := tbl\<rparr>), exits = False \<rparr>)
              else
                \<lparr> response = Inr StatusSuccess,
                  db_after = Some (d\<lparr>goals_tbl := deleted\<rparr>), exits = False \<rparr>))"

definition post_sqlite :: "runtime \<Rightarrow> db \<Rightarrow> string \<Rightarrow> json list \<Rightarrow> (db option) post_result" where
  "post_sqlite rt d u goalList =
     (let deleted = filter (\<lambda>r. r_username r \<noteq> u) (goals_tbl d)
      in (case queue_rows rt u goalList of
            (rows, threw) \<Rightarrow>
              (case run_inserts rows deleted of
                 (tbl, failed) \<Rightarrow>
                   \<lparr> response = (if threw then Inl (HttpError 500 EngineMsg) else Inr StatusSuccess),
                     db_after = Some (d\<lparr>goals_tbl := tbl\<rparr>), exits = failed \<rparr>)))"

text \<open>\<^verbatim>\<open>app.post('/api/goals')\<close> of the authenticated server and of the Supabase server
  (the two handlers are the same code). The username is the \<open>username\<close> field of the
  body, \<open>None\<close> when absent (usernames are strings, as the login form sends them);
  \<open>goals\<close> is its \<open>goals\<close> field. The database handle is \<open>None\<close> when
  initialisation failed.\<close>

definition post_goals ::
  "runtime \<Rightarrow> db option \<Rightarrow> string option \<Rightarrow> json option \<Rightarrow> (db option) post_result" where
  "post_goals rt dbo username goals =
     (case username of
        None \<Rightarrow>
          \<lparr> response = Inl (HttpError 400 (Msg ''Username is required'')),
            db_after = dbo, exits = False \<rparr>
      | Some u \<Rightarrow>
          if u = [] then
            \<lparr> response = Inl (HttpError 400 (Msg ''Username is required'')),
              db_after = dbo, exits = False \<rparr>
          else
            (case dbo of
               None \<Rightarrow>
                 \<lparr> response = Inl (HttpError 500 (Msg ''Database not initialized'')),
                   db_after = None, exits = False \<rparr>
             | Some d \<Rightarrow>
                 (case db_type d of
                    Supabase \<Rightarrow> post_supabase rt d u (goal_list goals)
                  | Sqlite \<Rightarrow> post_sqlite rt d u (goal_list goals))))"

text \<open>\<^verbatim>\<open>app.get('/api/goals')\<close> of the same two servers; the username is the query
  parameter.\<close>

definition get_goals :: "db option \<Rightarrow> string option \<Rightarrow> http_error + obj list" where
  "get_goals dbo username =
     (case username of
        None \<Rightarrow> Inr []
      | Some u \<Rightarrow>
          if u = [] then Inr []
          else
            (case dbo of
               None \<Rightarrow> Inl (HttpError 500 (Msg ''Database not initialized''))
             | Some d \<Rightarrow>
                 (case db_type d of
                    Supabase \<Rightarrow>
                      Inr (map (goal_of_row False)
                             (order_desc True r_created_at
                                (filter (\<lambda>r. r_username r = u) (goals_tbl d))))
                  | Sqlite \<Rightarrow>
                      Inr (map (goal_of_row True)
                             (order_desc False r_created_at
                                (filter (\<lambda>r. r_username r = u) (goals_tbl d)))))))"

subsection \<open>The first server: no users\<close>

text \<open>\<^verbatim>\<open>Array.isArray(goals) ? goals : [goals]\<close>, where \<open>goals\<close> is the whole body.\<close>

definition goal_list0 :: "json \<Rightarrow> json list" where
  "goal_list0 body = (case body of JArr xs \<Rightarrow> xs | _ \<Rightarrow> [body])"

text \<open>The PostgreSQL loop inserts row by row inside \<^verbatim>\<open>BEGIN\<close> ... \<^verbatim>\<open>COMMIT\<close>. It
  stops with the engine's message when destructuring throws and with the database's
  message when an id is taken; the handler then rolls back.\<close>

fun pg_each :: "runtime \<Rightarrow> json list \<Rightarrow> row0 list \<Rightarrow> err_msg + row0 list" where
  "pg_each rt [] tbl = Inr tbl"
| "pg_each rt (g # gs) tbl =
     (case destructure g of
        None \<Rightarrow> Inl EngineMsg
      | Some ob \<Rightarrow>
          if pk_free (r_id (mk_row0 rt False ob)) tbl
          then pg_each rt gs (tbl @ [mk_row0 rt False ob])
          else Inl BackendMsg)"

fun queue_rows0 :: "runtime \<Rightarrow> json list \<Rightarrow> row0 list \<times> bool" where
  "queue_rows0 rt [] = ([], False)"
| "queue_rows0 rt (g # gs) =
     (case destructure g of
        None \<Rightarrow> ([], True)
      | Some ob \<Rightarrow> (case queue_rows0 rt gs of (rs, threw) \<Rightarrow> (mk_row0 rt True ob # rs, threw)))"

text \<open>\<^verbatim>\<open>app.post('/api/goals')\<close> of the first server: \<^verbatim>\<open>DELETE FROM goals\<close> has no
  \<^verbatim>\<open>WHERE\<close>.\<close>

definition post_goals0 :: "runtime \<Rightarrow> db0 \<Rightarrow> json \<Rightarrow> db0 post_result" where
  "post_goals0 rt d body =
     (case db0_type d of
        Postgres \<Rightarrow>
          (case pg_each rt (goal_list0 body) [] of
             Inl msg \<Rightarrow> \<lparr> response = Inl (HttpError 500 msg), db_after = d, exits = False \<rparr>
           | Inr tbl \<Rightarrow>
               \<lparr> response = Inr StatusSuccess, db_after = d\<lparr>goals0_tbl := tbl\<rparr>,
                 exits = False \<rparr>)
      | Sqlite0 \<Rightarrow>
          (case queue_rows0 rt (goal_list0 body) of
             (rows, threw) \<Rightarrow>
               (case run_inserts rows [] of
                  (tbl, failed) \<Rightarrow>
                    \<lparr> response = (if threw then Inl (HttpError 500 EngineMsg) else Inr StatusSuccess),
                      db_after = d\<lparr>goals0_tbl := tbl\<rparr>, exits = failed \<rparr>)))"

text \<open>\<^verbatim>\<open>app.get('/api/goals')\<close> of the first server: the query string is not read, so
  the username of the request plays no part.\<close>

definition get_goals0 :: "db0 \<Rightarrow> string option \<Rightarrow> http_error + obj list" where
  "get_goals0 d username =
     (case db0_type d of
        Postgres \<Rightarrow> Inr (map (goal_of_row False) (order_desc True r_created_at (goals0_tbl d)))
      | Sqlite0 \<Rightarrow> Inr (map (goal_of_row True) (order_desc False r_created_at (goals0_tbl d))))"


section \<open>The client: saving, deleting, habit statistics\<close>

text \<open>\<^verbatim>\<open>deleteGoal\<close>: \<^verbatim>\<open>goals.filter(g => g.id !== id)\<close>.\<close>

definition deleteGoal :: "json \<Rightarrow> obj list \<Rightarrow> obj list" where
  "deleteGoal i goals = filter (\<lambda>g. get_prop g ''id'' \<noteq> Some i) goals"

text \<open>The save effect of \<^verbatim>\<open>App.jsx\<close> (the client of the first server): the body it
  posts, or \<open>None\<close> when it returns before \<^verbatim>\<open>fetch\<close>.\<close>

definition save_effect0 :: "obj list \<Rightarrow> json option" where
  "save_effect0 goals = (if length goals = 0 then None else Some (JArr (map JObj goals)))"

text \<open>The save effect of the client with login: the \<open>username\<close> and \<open>goals\<close> fields
  of the body its timer posts, or \<open>None\<close> when it returns before setting the timer.
  \<open>currentUser\<close> is \<open>None\<close> for \<^verbatim>\<open>null\<close>.\<close>

definition save_effect :: "string option \<Rightarrow> obj list \<Rightarrow> (string \<times> json) option" where
  "save_effect currentUser goals =
     (case currentUser of
        None \<Rightarrow> None
      | Some u \<Rightarrow>
          if u = [] \<or> length goals = 0 then None else Some (u, JArr (map JObj goals)))"

text \<open>One run of the save effect against the server: the database afterwards.\<close>

definition sync0 :: "runtime \<Rightarrow> db0 \<Rightarrow> obj list \<Rightarrow> db0" where
  "sync0 rt d goals =
     (case save_effect0 goals of None \<Rightarrow> d | Some body \<Rightarrow> db_after (post_goals0 rt d body))"

definition sync :: "runtime \<Rightarrow> db option \<Rightarrow> string option \<Rightarrow> obj list \<Rightarrow> db option" where
  "sync rt dbo currentUser goals =
     (case save_effect currentUser goals of
        None \<Rightarrow> dbo
      | Some (u, body) \<Rightarrow> db_after (post_goals rt dbo (Some u) (Some body)))"

subsection \<open>\<^verbatim>\<open>getHabitStats\<close>\<close>

text \<open>
  Times are milliseconds since the epoch. The date functions of the engine are a
  parameter:
  \<^item> \<open>parse_date v\<close> is \<^verbatim>\<open>new Date(v).getTime()\<close>, \<open>None\<close> for an invalid date;
  \<^item> \<open>date_key t\<close> is \<^verbatim>\<open>d.toISOString().split('T')[0]\<close> for the time \<open>t\<close>, its date
    in UTC;
  \<^item> \<open>local_time t\<close> is the local time value of the time \<open>t\<close> in the time zone of the
    browser (\<open>LocalTime\<close> of the language definition);
  \<^item> \<open>utc_time l\<close> is the time that the local time value \<open>l\<close> stands for (\<open>UTC\<close> of
    the language definition).

  \<open>now\<close> is the clock, read once. A field that is \<^verbatim>\<open>NaN\<close> is \<open>None\<close>.
\<close>

record dates =
  parse_date :: "json \<Rightarrow> int option"
  date_key :: "int \<Rightarrow> string"
  local_time :: "int \<Rightarrow> int"
  utc_time :: "int \<Rightarrow> int"

record stats =
  rate :: "int option"
  daysElapsed :: "int option"
  count :: nat

definition day_ms :: int where
  "day_ms = 86400000"

text \<open>\<^verbatim>\<open>Math.ceil(Math.abs(now - start) / 86400000)\<close>\<close>

definition ceil_days :: "int \<Rightarrow> int \<Rightarrow> int" where
  "ceil_days now start = - ((- \<bar>now - start\<bar>) div day_ms)"

text \<open>\<^verbatim>\<open>Math.round((count / daysElapsed) * 100)\<close>, which rounds a half upwards. For
  \<open>count \<le> daysElapsed \<le> 30\<close> the floating-point quotient is exact wherever the
  value is a half, so the result is the integer computed here.\<close>

definition round_rate :: "nat \<Rightarrow> int \<Rightarrow> int" where
  "round_rate c d = (200 * int c + d) div (2 * d)"

definition history_hit :: "obj \<Rightarrow> string \<Rightarrow> bool" where
  "history_hit goal ds =
     (case get_prop goal ''history'' of
        Some (JObj h) \<Rightarrow> truthy_opt (get_prop h ds)
      | _ \<Rightarrow> False)"

text \<open>
  \<^verbatim>\<open>const d = new Date(); d.setDate(now.getDate() - i)\<close>: the time \<open>d\<close> then holds.
  \<^verbatim>\<open>setDate\<close> works on the local time value \<open>l\<close> of \<open>d\<close>: it keeps the time within
  the day and sets the day to the first day of the month of \<open>l\<close> plus the argument
  minus one. The argument is the day of the month of \<open>l\<close> minus \<open>i\<close>, so the new day
  is the day of \<open>l\<close> minus \<open>i\<close>: the local time value moves back by \<open>i\<close> calendar
  days, and \<open>d\<close> becomes the time it stands for.
\<close>

definition set_date_back :: "dates \<Rightarrow> int \<Rightarrow> int \<Rightarrow> int" where
  "set_date_back dl now i = utc_time dl (local_time dl now - i * day_ms)"

text \<open>The \<^verbatim>\<open>for\<close> loop, from \<open>i\<close> with the count so far.\<close>

function habit_loop :: "dates \<Rightarrow> int \<Rightarrow> obj \<Rightarrow> int \<Rightarrow> int \<Rightarrow> nat \<Rightarrow> nat" where
  "habit_loop dl now goal n i c =
     (if i < n
      then habit_loop dl now goal n (i + 1)
             (if history_hit goal (date_key dl (set_date_back dl now i)) then c + 1 else c)
      else c)"
  by pat_completeness auto
termination
  by (relation "measure (\<lambda>(dl, now, goal, n, i, c). nat (n - i))") auto

definition not_habit :: "obj \<Rightarrow> bool" where
  "not_habit goal =
     (get_prop goal ''category'' \<noteq> Some (JStr ''HABIT'') \<or> \<not> truthy_opt (get_prop goal ''createdAt''))"

text \<open>The client with login: \<^verbatim>\<open>Math.max(1, Math.min(30, ...))\<close>.\<close>

definition getHabitStats :: "dates \<Rightarrow> int \<Rightarrow> obj \<Rightarrow> stats" where
  "getHabitStats dl now goal =
     (if not_habit goal then \<lparr> rate = Some 0, daysElapsed = Some 0, count = 0 \<rparr>
      else
        (case parse_date dl (col (get_prop goal ''createdAt'')) of
           None \<Rightarrow> \<lparr> rate = None, daysElapsed = None, count = 0 \<rparr>
         | Some start \<Rightarrow>
             let d = max 1 (min 30 (ceil_days now start));
                 c = habit_loop dl now goal d 0 0
             in \<lparr> rate = Some (round_rate c d), daysElapsed = Some d, count = c \<rparr>))"


text \<open>Following the spec: the number of days in the trailing window of \<open>d\<close> days that
  ends at \<open>now\<close>, stepping back one calendar day at a time, on which \<open>history\<close> holds
  a truthy entry under the date of that step.\<close>

definition window_count :: "dates \<Rightarrow> int \<Rightarrow> obj \<Rightarrow> int \<Rightarrow> nat" where
  "window_count dl now goal d =
     length (filter (\<lambda>j. history_hit goal (date_key dl (set_date_back dl now (int j))))
               [0..<nat d])"

subsection \<open>The date functions on the strings the client writes\<close>

text \<open>
  \<^verbatim>\<open>toISOString\<close> writes \<^verbatim>\<open>YYYY-MM-DDTHH:mm:ss.sssZ\<close> in UTC (years 0 to 9999);
  \<open>iso_date_utc\<close> is its date part and \<open>Date_parse_iso\<close> reads such a string back
  (and a number as the milliseconds it is). Other spellings that \<^verbatim>\<open>new Date\<close> accepts
  are outside \<open>Date_parse_iso\<close>.
\<close>

definition civil_from_days :: "int \<Rightarrow> int \<times> int \<times> int" where
  "civil_from_days z0 =
     (let z = z0 + 719468;
          era = z div 146097;
          doe = z mod 146097;
          yoe = (doe - doe div 1460 + doe div 36524 - doe div 146096) div 365;
          doy = doe - (365 * yoe + yoe div 4 - yoe div 100);
          mp = (5 * doy + 2) div 153;
          d = doy - (153 * mp + 2) div 5 + 1;
          m = (if mp < 10 then mp + 3 else mp - 9);
          y = yoe + era * 400
      in (if m \<le> 2 then y + 1 else y, m, d))"

definition days_from_civil :: "int \<Rightarrow> int \<Rightarrow> int \<Rightarrow> int" where
  "days_from_civil y0 m d =
     (let y = (if m \<le> 2 then y0 - 1 else y0);
          era = y div 400;
          yoe = y mod 400;
          doy = (153 * (if m > 2 then m - 3 else m + 9) + 2) div 5 + d - 1;
          doe = yoe * 365 + yoe div 4 - yoe div 100 + doy
      in era * 146097 + doe - 719468)"

definition pad2 :: "int \<Rightarrow> string" where
  "pad2 n = [digit_char (nat (n div 10 mod 10)), digit_char (nat (n mod 10))]"

definition pad4 :: "int \<Rightarrow> string" where
  "pad4 n = pad2 (n div 100) @ pad2 n"

definition iso_date_utc :: "int \<Rightarrow> string" where
  "iso_date_utc ms =
     (case civil_from_days (ms div day_ms) of
        (y, m, d) \<Rightarrow> pad4 y @ ''-'' @ pad2 m @ ''-'' @ pad2 d)"

fun digits_val :: "string \<Rightarrow> int \<Rightarrow> int option" where
  "digits_val [] acc = Some acc"
| "digits_val (c # cs) acc =
     (if (48 :: nat) \<le> of_char c \<and> (of_char c :: nat) \<le> 57
      then digits_val cs (10 * acc + (int (of_char c) - 48)) else None)"

definition days_in_month :: "int \<Rightarrow> int \<Rightarrow> int" where
  "days_in_month y m =
     (if m = 2 then (if y mod 4 = 0 \<and> (y mod 100 \<noteq> 0 \<or> y mod 400 = 0) then 29 else 28)
      else if m = 4 \<or> m = 6 \<or> m = 9 \<or> m = 11 then 30 else 31)"

definition Date_parse_iso :: "json \<Rightarrow> int option" where
  "Date_parse_iso v =
     (case v of
        JNum n \<Rightarrow> Some n
      | JStr s \<Rightarrow>
          if length s = 24 \<and> take 1 (drop 4 s) = ''-'' \<and> take 1 (drop 7 s) = ''-''
             \<and> take 1 (drop 10 s) = ''T'' \<and> take 1 (drop 13 s) = '':''
             \<and> take 1 (drop 16 s) = '':'' \<and> take 1 (drop 19 s) = ''.''
             \<and> drop 23 s = ''Z''
          then
            (case (digits_val (take 4 s) 0, digits_val (take 2 (drop 5 s)) 0,
                   digits_val (take 2 (drop 8 s)) 0, digits_val (take 2 (drop 11 s)) 0,
                   digits_val (take 2 (drop 14 s)) 0, digits_val (take 2 (drop 17 s)) 0,
                   digits_val (take 3 (drop 20 s)) 0) of
               (Some y, Some m, Some d, Some h, Some mi, Some sec, Some msec) \<Rightarrow>
                 if 1 \<le> m \<and> m \<le> 12 \<and> 1 \<le> d \<and> d \<le> days_in_month y m
                    \<and> h \<le> 23 \<and> mi \<le> 59 \<and> sec \<le> 59
                 then Some (days_from_civil y m d * day_ms
                            + ((h * 60 + mi) * 60 + sec) * 1000 + msec)
                 else None
             | _ \<Rightarrow> None)
          else None
      | _ \<Rightarrow> None)"

section \<open>The client: \<^verbatim>\<open>analyzeGoal\<close>\<close>

text \<open>
  What \<^verbatim>\<open>fetch('/api/analyze')\<close> and \<^verbatim>\<open>response.json()\<close> give: a transport error, a
  body that is not JSON (\<open>Body None\<close>), or the parsed body. \<^verbatim>\<open>JSON.parse\<close> is the
  parameter \<open>JSON_parse\<close>, \<open>None\<close> where it throws. A string is a list of code units
  below 256; the two Japanese messages are written as their UTF-8 bytes.
\<close>

datatype fetch_outcome = NetworkError | Body "json option"

text \<open>\<^verbatim>\<open>x?.k\<close> and \<^verbatim>\<open>x?.[0]\<close>: \<^verbatim>\<open>undefined\<close> on \<^verbatim>\<open>null\<close> and \<^verbatim>\<open>undefined\<close>.\<close>

definition member :: "string \<Rightarrow> json \<Rightarrow> json option" where
  "member k v = (case v of JObj ob \<Rightarrow> get_prop ob k | _ \<Rightarrow> None)"

definition elem0 :: "json \<Rightarrow> json option" where
  "elem0 v =
     (case v of
        JArr xs \<Rightarrow> (case xs of [] \<Rightarrow> None | x # _ \<Rightarrow> Some x)
      | JStr s \<Rightarrow> (case s of [] \<Rightarrow> None | c # _ \<Rightarrow> Some (JStr [c]))
      | JObj ob \<Rightarrow> get_prop ob ''0''
      | _ \<Rightarrow> None)"

definition opt_chain :: "(json \<Rightarrow> json option) \<Rightarrow> json option \<Rightarrow> json option" where
  "opt_chain f v = (case v of None \<Rightarrow> None | Some JNull \<Rightarrow> None | Some x \<Rightarrow> f x)"

text \<open>\<^verbatim>\<open>result.candidates?.[0]?.content?.parts?.[0]?.text\<close>; \<open>Inl ()\<close> is the TypeError
  of reading \<open>candidates\<close> from \<^verbatim>\<open>null\<close>.\<close>

definition response_text :: "json \<Rightarrow> unit + json option" where
  "response_text result =
     (if result = JNull then Inl ()
      else Inr (opt_chain (member ''text'') (opt_chain elem0 (opt_chain (member ''parts'')
             (opt_chain (member ''content'') (opt_chain elem0 (member ''candidates'' result)))))))"

text \<open>\<^verbatim>\<open>\s\<close> on code units below 256.\<close>

definition is_space :: "char \<Rightarrow> bool" where
  "is_space c = ((of_char c :: nat) \<in> {9, 10, 11, 12, 13, 32, 160})"

definition fence_json :: string where
  "fence_json = [CHR 0x60, CHR 0x60, CHR 0x60, CHR ''j'', CHR ''s'', CHR ''o'', CHR ''n'']"

definition fence :: string where
  "fence = [CHR 0x60, CHR 0x60, CHR 0x60]"

text \<open>\<^verbatim>\<open>.replace(/^```json\s*/, '')\<close>\<close>

definition strip_lead :: "string \<Rightarrow> string" where
  "strip_lead s =
     (if take (length fence_json) s = fence_json
      then dropWhile is_space (drop (length fence_json) s) else s)"

text \<open>\<^verbatim>\<open>.replace(/\s*```$/, '')\<close>: the match is the final fence with the longest run of
  white space before it.\<close>

definition strip_trail :: "string \<Rightarrow> string" where
  "strip_trail s =
     (if length fence \<le> length s \<and> drop (length s - length fence) s = fence
      then rev (dropWhile is_space (rev (take (length s - length fence) s))) else s)"

definition fallback_msg :: string where
  "fallback_msg =
     [CHR 0xE5, CHR 0x88, CHR 0x86, CHR 0xE6, CHR 0x9E, CHR 0x90, CHR 0xE5, CHR 0xA4, CHR
      0xB1, CHR 0xE6, CHR 0x95, CHR 0x97]"

definition fallback_msg_jsx :: string where
  "fallback_msg_jsx =
     [CHR 0xE5, CHR 0x88, CHR 0x86, CHR 0xE6, CHR 0x9E, CHR 0x90, CHR 0xE3, CHR 0x81, CHR
      0xAB, CHR 0xE5, CHR 0xA4, CHR 0xB1, CHR 0xE6, CHR 0x95, CHR 0x97, CHR 0xE3, CHR 0x81,
      CHR 0x97, CHR 0xE3, CHR 0x81, CHR 0xBE, CHR 0xE3, CHR 0x81, CHR 0x97, CHR 0xE3, CHR
      0x81, CHR 0x9F, CHR 0xE3, CHR 0x80, CHR 0x82]"

definition fallback :: "string \<Rightarrow> json" where
  "fallback msg =
     JObj [(''category'', JStr ''NONE''), (''roadmap'', JArr []), (''subTasks'', JArr []),
           (''advice'', JStr msg)]"

text \<open>The \<^verbatim>\<open>try\<close> block of the client with login; \<open>None\<close> when it throws.\<close>

definition analyze_try :: "(string \<Rightarrow> json option) \<Rightarrow> fetch_outcome \<Rightarrow> json option" where
  "analyze_try JSON_parse outcome =
     (case outcome of
        NetworkError \<Rightarrow> None
      | Body None \<Rightarrow> None
      | Body (Some result) \<Rightarrow>
          (case response_text result of
             Inl _ \<Rightarrow> None
           | Inr rawText \<Rightarrow>
               if \<not> truthy_opt rawText then None
               else (case rawText of
                       Some (JStr s) \<Rightarrow> JSON_parse (strip_trail (strip_lead s))
                     | _ \<Rightarrow> None)))"

definition analyzeGoal :: "(string \<Rightarrow> json option) \<Rightarrow> fetch_outcome \<Rightarrow> json" where
  "analyzeGoal JSON_parse outcome =
     (case analyze_try JSON_parse outcome of
        None \<Rightarrow> fallback fallback_msg
      | Some content \<Rightarrow> content)"

text \<open>
  \<^verbatim>\<open>content.subTasks && content.subTasks.length > 3\<close> followed by the \<^verbatim>\<open>slice\<close>, of
  \<^verbatim>\<open>App.jsx\<close>; \<open>None\<close> when it throws. Reading \<open>subTasks\<close> from \<^verbatim>\<open>null\<close> throws. An
  array or a string is cut to three entries. An object has the \<open>length\<close> that is its
  property of that name and has no \<^verbatim>\<open>slice\<close>, so that it throws when the comparison
  holds (\<^verbatim>\<open>undefined\<close>, \<^verbatim>\<open>null\<close> and booleans convert to numbers that are not above
  3; other values that are not numbers are compared by the engine).
\<close>

definition length_exceeds3 :: "runtime \<Rightarrow> json option \<Rightarrow> bool option" where
  "length_exceeds3 rt v =
     (case v of
        None \<Rightarrow> Some False
      | Some JNull \<Rightarrow> Some False
      | Some (JBool _) \<Rightarrow> Some False
      | Some (JNum n) \<Rightarrow> Some (n > 3)
      | Some x \<Rightarrow> exceeds3 rt x)"

definition cut_subTasks :: "runtime \<Rightarrow> json \<Rightarrow> json option" where
  "cut_subTasks rt content =
     (case content of
        JNull \<Rightarrow> None
      | JObj ob \<Rightarrow>
          (case get_prop ob ''subTasks'' of
             Some (JArr xs) \<Rightarrow>
               Some (if length xs > 3 then JObj (obj_set ''subTasks'' (JArr (take 3 xs)) ob)
                     else content)
           | Some (JStr s) \<Rightarrow>
               Some (if length s > 3 then JObj (obj_set ''subTasks'' (JStr (take 3 s)) ob)
                     else content)
           | Some (JObj q) \<Rightarrow>
               (case length_exceeds3 rt (get_prop q ''length'') of
                  None \<Rightarrow> None
                | Some True \<Rightarrow> None
                | Some False \<Rightarrow> Some content)
           | _ \<Rightarrow> Some content)
      | _ \<Rightarrow> Some content)"

text \<open>The \<^verbatim>\<open>try\<close> block of \<^verbatim>\<open>App.jsx\<close>: the text goes to \<^verbatim>\<open>JSON.parse\<close> as it is
  (\<^verbatim>\<open>JSON.parse\<close> applies \<^verbatim>\<open>String\<close> to its argument), and \<open>subTasks\<close> is cut to three
  entries.\<close>

definition analyze_try_jsx ::
  "runtime \<Rightarrow> (string \<Rightarrow> json option) \<Rightarrow> fetch_outcome \<Rightarrow> json option" where
  "analyze_try_jsx rt JSON_parse outcome =
     (case outcome of
        NetworkError \<Rightarrow> None
      | Body None \<Rightarrow> None
      | Body (Some result) \<Rightarrow>
          (case response_text result of
             Inl _ \<Rightarrow> None
           | Inr rawText \<Rightarrow>
               (case JSON_parse (String_opt rt rawText) of
                  None \<Rightarrow> None
                | Some content \<Rightarrow> cut_subTasks rt content)))"

definition analyzeGoal_jsx ::
  "runtime \<Rightarrow> (string \<Rightarrow> json option) \<Rightarrow> fetch_outcome \<Rightarrow> json" where
  "analyzeGoal_jsx rt JSON_parse outcome =
     (case analyze_try_jsx rt JSON_parse outcome of
        None \<Rightarrow> fallback fallback_msg_jsx
      | Some content \<Rightarrow> content)"

text \<open>The body the proxy relays when the model answers with the text \<open>t\<close>.\<close>

definition upstream_reply :: "json \<Rightarrow> json" where
  "upstream_reply t =
     JObj [(''candidates'', JArr [JObj [(''content'', JObj [(''parts'', JArr [JObj [(''text'', t)]])])]])]"

text \<open>A response text inside a \<^verbatim>\<open>```json\<close> fence, with white space \<open>w1\<close> after the
  opening fence and \<open>w2\<close> before the closing one; and a text that has no fence and no
  white space at its ends.\<close>

definition fenced :: "string \<Rightarrow> string \<Rightarrow> string \<Rightarrow> string" where
  "fenced w1 t w2 = fence_json @ w1 @ t @ w2 @ fence"

definition unfenced :: "string \<Rightarrow> bool" where
  "unfenced t =
     (t \<noteq> [] \<and> \<not> is_space (hd t) \<and> \<not> is_space (last t)
      \<and> take (length fence_json) t \<noteq> fence_json
      \<and> drop (length t - length fence) t \<noteq> fence)"

section \<open>Passwords: the authenticated server\<close>

















section \<open>What is stored for a user\<close>

text \<open>The rows of the \<open>goals\<close> table that carry a username.\<close>

definition stored_for :: "db option \<Rightarrow> string \<Rightarrow> row list" where
  "stored_for dbo u =
     (case dbo of None \<Rightarrow> [] | Some d \<Rightarrow> filter (\<lambda>r. r_username r = u) (goals_tbl d))"

section \<open>What a round trip keeps\<close>

text \<open>The text a goal's id is stored as; the goal as a property map with its id
  replaced by that text; and the shape of a goal the round trip is stated for: distinct
  property names (as every JavaScript object has), \<open>text\<close>, \<open>category\<close> and
  \<open>createdAt\<close> that are strings, and a \<open>completed\<close> that is a boolean, as the
  clients write them.\<close>

definition goal_id :: "runtime \<Rightarrow> obj \<Rightarrow> string" where
  "goal_id rt g = String_opt rt (get_prop g ''id'')"






section \<open>Example data\<close>

text \<open>A runtime for the examples. The examples stay inside the part that the model
  computes, so the values of its fields play no part.\<close>

definition rt_demo :: runtime where
  "rt_demo =
     \<lparr> num_text = (\<lambda>n. []), text_of = (\<lambda>v. None), completed_of = (\<lambda>v. JNull),
       exceeds3 = (\<lambda>v. Some False) \<rparr>"


definition goal_run :: obj where
  "goal_run =
     [(''id'', JNum 1), (''text'', JStr ''Run''), (''completed'', JBool False),
      (''category'', JStr ''HABIT''), (''subTasks'', JArr []), (''history'', JObj []),
      (''createdAt'', JStr ''2026-01-01T00:00:00.000Z'')]"

definition db_ann :: "backend \<Rightarrow> db" where
  "db_ann b =
     \<lparr> db_type = b, goals_tbl = [mk_row rt_demo (b = Sqlite) ''ann'' goal_run],
       users_tbl = [] \<rparr>"

definition db0_one :: "backend0 \<Rightarrow> db0" where
  "db0_one b = \<lparr> db0_type = b, goals0_tbl = [mk_row0 rt_demo (b = Sqlite0) goal_run] \<rparr>"

definition goal_walk :: obj where
  "goal_walk =
     [(''id'', JNum 2), (''text'', JStr ''Walk''), (''completed'', JBool True),
      (''category'', JStr ''HOBBY''), (''createdAt'', JStr ''2026-02-01T00:00:00.000Z'')]"

text \<open>A goal of another user under the id of \<open>goal_run\<close>.\<close>

definition goal_clash :: obj where
  "goal_clash =
     [(''id'', JNum 1), (''text'', JStr ''Swim''), (''completed'', JBool False),
      (''category'', JStr ''HOBBY''), (''createdAt'', JStr ''2026-03-01T00:00:00.000Z'')]"

definition db_empty :: "backend \<Rightarrow> db" where
  "db_empty b = \<lparr> db_type = b, goals_tbl = [], users_tbl = [] \<rparr>"

text \<open>A stand-in for \<^verbatim>\<open>JSON.parse\<close> that agrees with it on the texts of the examples:
  it reads \<^verbatim>\<open>{}\<close> and rejects every other text.\<close>

definition parse_braces :: "string \<Rightarrow> json option" where
  "parse_braces s = (if s = ''{}'' then Some (JObj []) else None)"




text \<open>The goal \<open>goal_run\<close> as the servers return it.\<close>

definition goal_run_loaded :: obj where
  "goal_run_loaded =
     [(''id'', JStr ''1''), (''text'', JStr ''Run''), (''category'', JStr ''HABIT''),
      (''completed'', JBool False), (''createdAt'', JStr ''2026-01-01T00:00:00.000Z''),
      (''subTasks'', JArr []), (''history'', JObj [])]"

definition goal_walk_loaded :: obj where
  "goal_walk_loaded =
     [(''id'', JStr ''2''), (''text'', JStr ''Walk''), (''category'', JStr ''HOBBY''),
      (''completed'', JBool True), (''createdAt'', JStr ''2026-02-01T00:00:00.000Z'')]"

text \<open>The date functions in New York in 2026: five hours behind UTC, four from 8 March
  07:00 UTC to 1 November 06:00 UTC. A local time value is read with the offset in force
  before a change when it falls into the hour the change skips or repeats.\<close>

definition dates_new_york :: dates where
  "dates_new_york =
     \<lparr> parse_date = Date_parse_iso, date_key = iso_date_utc,
       local_time = (\<lambda>t. if 1772953200000 \<le> t \<and> t < 1793512800000
                           then t - 14400000 else t - 18000000),
       utc_time = (\<lambda>l. if 1772938800000 \<le> l \<and> l < 1793498400000
                         then l + 14400000 else l + 18000000) \<rparr>"

definition goal_spring :: obj where
  "goal_spring =
     [(''id'', JNum 5), (''text'', JStr ''Draw''), (''category'', JStr ''HABIT''),
      (''history'', JObj [(''2026-03-07'', JBool True)]),
      (''createdAt'', JStr ''2026-03-07T00:00:00.000Z'')]"

definition goal_autumn :: obj where
  "goal_autumn =
     [(''id'', JNum 6), (''text'', JStr ''Sing''), (''category'', JStr ''HABIT''),
      (''history'', JObj [(''2026-11-01'', JBool True), (''2026-11-02'', JBool True),
                          (''2026-11-03'', JBool True)]),
      (''createdAt'', JStr ''2026-11-01T00:00:00.000Z'')]"

section \<open>Verified properties\<close>

subsection \<open>A \<open>goals\<close> field that is not an array\<close>




subsection \<open>Rows of other users\<close>

lemma mk_row_sel [simp]: "r_username (mk_row rt sq u ob) = u"
  by (simp add: mk_row_def)

lemma rows_of_username:
  "rows_of rt u gs = Some rs \<Longrightarrow> r \<in> set rs \<Longrightarrow> r_username r = u"
  by (induction gs arbitrary: rs) (auto split: option.splits)

lemma queue_rows_username:
  "queue_rows rt u gs = (rs, t) \<Longrightarrow> r \<in> set rs \<Longrightarrow> r_username r = u"
  by (induction gs arbitrary: rs t) (auto split: option.splits prod.splits)

lemma run_inserts_frame:
  "\<forall>r \<in> set rs. r_username r \<noteq> u2 \<Longrightarrow> run_inserts rs tbl = (tbl', f) \<Longrightarrow>
     filter (\<lambda>r. r_username r = u2) tbl' = filter (\<lambda>r. r_username r = u2) tbl"
  by (induction rs arbitrary: tbl) (auto split: if_splits)

lemma filter_other_user:
  "u2 \<noteq> u \<Longrightarrow> filter (\<lambda>r. r_username r = u2) (filter (\<lambda>r. r_username r \<noteq> u) tbl) =
     filter (\<lambda>r. r_username r = u2) tbl"
  by (auto intro: filter_cong)

lemma filter_other_user':
  "u2 \<noteq> u \<Longrightarrow> filter (\<lambda>x. r_username x \<noteq> u \<and> r_username x = u2) tbl =
     filter (\<lambda>r. r_username r = u2) tbl"
  by (auto intro: filter_cong)

lemma post_sqlite_frame:
  assumes "u2 \<noteq> u"
  shows "stored_for (db_after (post_sqlite rt d u gs)) u2 = stored_for (Some d) u2"
proof -
  let ?deleted = "filter (\<lambda>r. r_username r \<noteq> u) (goals_tbl d)"
  obtain rs t where q: "queue_rows rt u gs = (rs, t)" by (cases "queue_rows rt u gs")
  obtain tbl' f where e: "run_inserts rs ?deleted = (tbl', f)"
    by (cases "run_inserts rs ?deleted")
  have "\<forall>r \<in> set rs. r_username r \<noteq> u2"
    using queue_rows_username [OF q] assms by auto
  then have "filter (\<lambda>r. r_username r = u2) tbl' = filter (\<lambda>r. r_username r = u2) ?deleted"
    using e by (rule run_inserts_frame)
  also have "\<dots> = filter (\<lambda>r. r_username r = u2) (goals_tbl d)"
    using assms by (rule filter_other_user)
  finally show ?thesis
    using q e by (simp add: post_sqlite_def stored_for_def)
qed

lemma post_supabase_frame:
  assumes "u2 \<noteq> u"
  shows "stored_for (db_after (post_supabase rt d u gs)) u2 = stored_for (Some d) u2"
proof (cases "rows_of rt u gs")
  case None
  then show ?thesis
    using assms by (simp add: post_supabase_def stored_for_def filter_other_user')
next
  case (Some rs)
  have none: "filter (\<lambda>r. r_username r = u2) rs = []"
    using rows_of_username [OF Some] assms by (auto simp: filter_empty_conv)
  show ?thesis
    using Some assms none
    by (auto simp: post_supabase_def insert_bulk_def filter_other_user' stored_for_def Let_def
          split: option.splits)
qed

lemma post_db_type_sqlite:
  "map_option db_type (db_after (post_sqlite rt d u gs)) = Some (db_type d)"
  by (simp add: post_sqlite_def Let_def split: prod.splits)

lemma post_db_type_supabase:
  "map_option db_type (db_after (post_supabase rt d u gs)) = Some (db_type d)"
  by (simp add: post_supabase_def Let_def split: option.splits)

lemma post_goals_db_type:
  "map_option db_type (db_after (post_goals rt dbo username goals)) = map_option db_type dbo"
proof (cases dbo)
  case None
  then show ?thesis by (cases username) (simp_all add: post_goals_def)
next
  case (Some d)
  show ?thesis
  proof (cases username)
    case None
    then show ?thesis by (simp add: post_goals_def)
  next
    case (Some u)
    then show ?thesis
      using \<open>dbo = Some d\<close> post_db_type_sqlite [of rt d u "goal_list goals"]
        post_db_type_supabase [of rt d u "goal_list goals"]
      by (cases "db_type d") (simp_all add: post_goals_def)
  qed
qed

lemma post_goals_stored_for:
  assumes "username \<noteq> Some u2"
  shows "stored_for (db_after (post_goals rt dbo username goals)) u2 = stored_for dbo u2"
proof (cases username)
  case None
  then show ?thesis by (simp add: post_goals_def)
next
  case (Some u)
  with assms have ne: "u2 \<noteq> u" by auto
  show ?thesis
  proof (cases dbo)
    case None
    then show ?thesis using Some by (simp add: post_goals_def stored_for_def)
  next
    case (Some d)
    then show ?thesis
      using \<open>username = Some u\<close> post_sqlite_frame [OF ne] post_supabase_frame [OF ne]
      by (cases "db_type d") (simp_all add: post_goals_def)
  qed
qed

lemma get_goals_stored_for:
  "stored_for dbo u = stored_for dbo' u \<Longrightarrow> map_option db_type dbo = map_option db_type dbo'
     \<Longrightarrow> get_goals dbo (Some u) = get_goals dbo' (Some u)"
  by (cases dbo; cases dbo') (auto simp: get_goals_def stored_for_def split: backend.splits)

text \<open>
  C2, as the claim states it, fails on the first server (PostgreSQL or SQLite without a
  \<open>username\<close> column): its \<^verbatim>\<open>DELETE FROM goals\<close> removes every row, so what a second
  user loads changes when the first user saves.
\<close>

theorem post_goals0_frame_counterexample:
  "get_goals0 (db_after (post_goals0 rt_demo (db0_one Postgres) (JArr [JObj goal_walk])))
     (Some ''ann'')
     \<noteq> get_goals0 (db0_one Postgres) (Some ''ann'')"
  by code_simp

text \<open>
  C2, amended. On the two servers that store a username with each row (Supabase or
  SQLite), a request to replace the goals of one user leaves the rows stored for every
  other user as they were, on both backends and whatever the response is; and unless the
  request makes the server process exit (on SQLite an insert under an id that is taken
  does, after the response), what that other user loads is the same before and after.
\<close>

theorem post_goals_frame:
  assumes "username \<noteq> Some u2"
  shows "stored_for (db_after (post_goals rt dbo username goals)) u2 = stored_for dbo u2 \<and>
         (\<not> exits (post_goals rt dbo username goals) \<longrightarrow>
            get_goals (db_after (post_goals rt dbo username goals)) (Some u2)
              = get_goals dbo (Some u2))"
  using post_goals_stored_for [OF assms] get_goals_stored_for post_goals_db_type by blast

theorem post_goals_frame_witness:
  "Some ''bob'' \<noteq> Some ''ann'' \<and>
   \<not> exits (post_goals rt_demo (Some (db_ann Supabase)) (Some ''bob'')
              (Some (JArr [JObj goal_walk]))) \<and>
   stored_for (db_after (post_goals rt_demo (Some (db_ann Supabase)) (Some ''bob'')
                      (Some (JArr [JObj goal_walk])))) ''ann''
     = [mk_row rt_demo False ''ann'' goal_run] \<and>
   exits (post_goals rt_demo (Some (db_ann Sqlite)) (Some ''bob'')
            (Some (JArr [JObj goal_clash]))) \<and>
   stored_for (db_after (post_goals rt_demo (Some (db_ann Sqlite)) (Some ''bob'')
                      (Some (JArr [JObj goal_clash])))) ''ann''
     = [mk_row rt_demo True ''ann'' goal_run]"
proof -
  have a: "Some ''bob'' \<noteq> Some ''ann''" by simp
  have b: "\<not> exits (post_goals rt_demo (Some (db_ann Supabase)) (Some ''bob'')
              (Some (JArr [JObj goal_walk])))"
    by code_simp
  have c: "exits (post_goals rt_demo (Some (db_ann Sqlite)) (Some ''bob'')
            (Some (JArr [JObj goal_clash])))"
    by code_simp
  have d: "stored_for (Some (db_ann Supabase)) ''ann'' = [mk_row rt_demo False ''ann'' goal_run]"
    "stored_for (Some (db_ann Sqlite)) ''ann'' = [mk_row rt_demo True ''ann'' goal_run]"
    by (simp_all add: stored_for_def db_ann_def)
  from post_goals_frame [OF a, of rt_demo "Some (db_ann Supabase)" "Some (JArr [JObj goal_walk])"]
  have e: "stored_for (db_after (post_goals rt_demo (Some (db_ann Supabase)) (Some ''bob'')
                      (Some (JArr [JObj goal_walk])))) ''ann''
     = [mk_row rt_demo False ''ann'' goal_run]"
    unfolding d by (rule conjunct1)
  from post_goals_frame [OF a, of rt_demo "Some (db_ann Sqlite)" "Some (JArr [JObj goal_clash])"]
  have f: "stored_for (db_after (post_goals rt_demo (Some (db_ann Sqlite)) (Some ''bob'')
                      (Some (JArr [JObj goal_clash])))) ''ann''
     = [mk_row rt_demo True ''ann'' goal_run]"
    unfolding d by (rule conjunct1)
  show ?thesis
    by (intro conjI) (rule a b c e f)+
qed

subsection \<open>Loading without a username, or for a user with no rows\<close>




subsection \<open>The save effect on an empty list\<close>

lemma sync_empty: "sync rt dbo cu [] = dbo" "sync0 rt d0 [] = d0"
  by (simp_all add: sync_def sync0_def save_effect_def save_effect0_def split: option.splits)

text \<open>
  C9. The save effect of either client posts nothing when the goal list is empty. So
  after the one remaining goal has been saved, deleting it sends no request: the
  database is the one the earlier save left, and loading the user's goals gives what it
  gave before the deletion.
\<close>

theorem empty_list_never_synced:
  assumes "get_prop g ''id'' = Some i"
  shows "save_effect0 (deleteGoal i [g]) = None \<and>
         save_effect cu (deleteGoal i [g]) = None \<and>
         sync0 rt (sync0 rt d0 [g]) (deleteGoal i [g]) = sync0 rt d0 [g] \<and>
         sync rt (sync rt dbo cu [g]) cu (deleteGoal i [g]) = sync rt dbo cu [g] \<and>
         get_goals (sync rt (sync rt dbo cu [g]) cu (deleteGoal i [g])) cu
           = get_goals (sync rt dbo cu [g]) cu"
  using assms
  by (simp add: deleteGoal_def sync_empty save_effect_def save_effect0_def split: option.splits)

theorem empty_list_never_synced_witness:
  "get_prop goal_run ''id'' = Some (JNum 1) \<and>
   save_effect (Some ''ann'') (deleteGoal (JNum 1) [goal_run]) = None \<and>
   get_goals (sync rt_demo (sync rt_demo (Some (db_empty Supabase)) (Some ''ann'') [goal_run])
                (Some ''ann'') (deleteGoal (JNum 1) [goal_run])) (Some ''ann'')
     = Inr [goal_of_row False (mk_row rt_demo False ''ann'' goal_run)]"
proof -
  have a: "get_prop goal_run ''id'' = Some (JNum 1)"
    by (simp add: goal_run_def get_prop_def)
  have b: "get_goals (sync rt_demo (Some (db_empty Supabase)) (Some ''ann'') [goal_run]) (Some ''ann'')
     = Inr [goal_of_row False (mk_row rt_demo False ''ann'' goal_run)]"
    by (simp add: sync_def save_effect_def post_goals_def post_supabase_def get_goals_def
       insert_bulk_def pk_free_def order_desc_def goal_list_def db_empty_def)
  from empty_list_never_synced [OF a, of "Some ''ann''" rt_demo "db0_one Postgres"
         "Some (db_empty Supabase)"] a b
  show ?thesis by simp
qed

subsection \<open>Failure of the analysis\<close>

lemma response_text_reply [simp]: "response_text (upstream_reply t) = Inr (Some t)"
  by (simp add: response_text_def upstream_reply_def opt_chain_def member_def elem0_def get_prop_def
        split: json.splits)

lemma response_text_no_candidates:
  "get_prop ob ''candidates'' = None \<Longrightarrow> response_text (JObj ob) = Inr None"
  by (simp add: response_text_def opt_chain_def member_def)

text \<open>
  C6. When the analysis fails, \<^verbatim>\<open>analyzeGoal\<close> returns the object with category
  \<open>NONE\<close>, empty \<open>roadmap\<close> and \<open>subTasks\<close>, and the failure message of the client as
  \<open>advice\<close>: on a transport error, on a body that is not JSON or is \<^verbatim>\<open>null\<close>, on a
  body without the response text (an upstream error payload among them), on a response
  text that is not a string (in the client with login, which calls \<^verbatim>\<open>replace\<close> on it),
  on a response text that \<^verbatim>\<open>JSON.parse\<close> rejects, and, in \<^verbatim>\<open>App.jsx\<close>, on a parsed
  value that the cut of \<open>subTasks\<close> throws on (\<^verbatim>\<open>null\<close>, or \<open>subTasks\<close> an object
  with a \<open>length\<close> above 3 and no \<^verbatim>\<open>slice\<close>). \<^verbatim>\<open>analyzeGoal\<close> is a total function to
  JSON values, so nothing is thrown to the caller. The one fact used about
  \<^verbatim>\<open>JSON.parse\<close> is that it rejects the text \<^verbatim>\<open>undefined\<close>, which \<^verbatim>\<open>App.jsx\<close> hands to it
  when the text is missing.
\<close>

theorem analyze_failure_fallback:
  assumes "P ''undefined'' = None"
  shows
    "let failed = JObj [(''category'', JStr ''NONE''), (''roadmap'', JArr []),
                        (''subTasks'', JArr []), (''advice'', JStr fallback_msg)];
         failed_jsx = JObj [(''category'', JStr ''NONE''), (''roadmap'', JArr []),
                            (''subTasks'', JArr []), (''advice'', JStr fallback_msg_jsx)]
     in analyzeGoal P NetworkError = failed
      \<and> analyzeGoal_jsx rt P NetworkError = failed_jsx
      \<and> analyzeGoal P (Body None) = failed
      \<and> analyzeGoal_jsx rt P (Body None) = failed_jsx
      \<and> analyzeGoal P (Body (Some JNull)) = failed
      \<and> analyzeGoal_jsx rt P (Body (Some JNull)) = failed_jsx
      \<and> (response_text r = Inr None \<longrightarrow>
            analyzeGoal P (Body (Some r)) = failed
          \<and> analyzeGoal_jsx rt P (Body (Some r)) = failed_jsx)
      \<and> (get_prop ob ''candidates'' = None \<longrightarrow>
            analyzeGoal P (Body (Some (JObj ob))) = failed
          \<and> analyzeGoal_jsx rt P (Body (Some (JObj ob))) = failed_jsx)
      \<and> (response_text r = Inr (Some v) \<and> (\<forall>t. v \<noteq> JStr t) \<longrightarrow>
            analyzeGoal P (Body (Some r)) = failed)
      \<and> (response_text r = Inr (Some (JStr s)) \<and> P (strip_trail (strip_lead s)) = None \<longrightarrow>
            analyzeGoal P (Body (Some r)) = failed)
      \<and> (response_text r = Inr (Some (JStr s)) \<and> P s = None \<longrightarrow>
            analyzeGoal_jsx rt P (Body (Some r)) = failed_jsx)
      \<and> (response_text r = Inr (Some (JStr s)) \<and> P s = Some JNull \<longrightarrow>
            analyzeGoal_jsx rt P (Body (Some r)) = failed_jsx)
      \<and> (response_text r = Inr (Some (JStr s)) \<and> P s = Some (JObj c) \<and>
          get_prop c ''subTasks'' = Some (JObj q) \<and> get_prop q ''length'' = Some (JNum n) \<and> 3 < n
          \<longrightarrow> analyzeGoal_jsx rt P (Body (Some r)) = failed_jsx)"
proof -
  let ?failed = "JObj [(''category'', JStr ''NONE''), (''roadmap'', JArr []),
                       (''subTasks'', JArr []), (''advice'', JStr fallback_msg)]"
  let ?failed_jsx = "JObj [(''category'', JStr ''NONE''), (''roadmap'', JArr []),
                           (''subTasks'', JArr []), (''advice'', JStr fallback_msg_jsx)]"
  have F: "analyzeGoal P x = ?failed" if "analyze_try P x = None" for x
    using that by (simp add: analyzeGoal_def fallback_def)
  have G: "analyzeGoal_jsx rt P x = ?failed_jsx" if "analyze_try_jsx rt P x = None" for x
    using that by (simp add: analyzeGoal_jsx_def fallback_def)
  have c1: "analyzeGoal P NetworkError = ?failed" "analyzeGoal P (Body None) = ?failed"
    "analyzeGoal P (Body (Some JNull)) = ?failed"
    by (rule F, simp add: analyze_try_def response_text_def)+
  have c2: "analyzeGoal_jsx rt P NetworkError = ?failed_jsx"
    "analyzeGoal_jsx rt P (Body None) = ?failed_jsx"
    "analyzeGoal_jsx rt P (Body (Some JNull)) = ?failed_jsx"
    by (rule G, simp add: analyze_try_jsx_def response_text_def)+
  have c3: "analyzeGoal P (Body (Some r)) = ?failed" if "response_text r = Inr None"
    using that by (intro F) (simp add: analyze_try_def truthy_opt_def)
  have c4: "analyzeGoal_jsx rt P (Body (Some r)) = ?failed_jsx" if "response_text r = Inr None"
    using that assms by (intro G) (simp add: analyze_try_jsx_def String_opt_def)
  have c5: "analyzeGoal P (Body (Some (JObj ob))) = ?failed"
    if "get_prop ob ''candidates'' = None"
    using response_text_no_candidates [OF that]
    by (intro F) (simp add: analyze_try_def truthy_opt_def)
  have c6: "analyzeGoal_jsx rt P (Body (Some (JObj ob))) = ?failed_jsx"
    if "get_prop ob ''candidates'' = None"
    using response_text_no_candidates [OF that] assms
    by (intro G) (simp add: analyze_try_jsx_def String_opt_def)
  have c7: "analyzeGoal P (Body (Some r)) = ?failed"
    if "response_text r = Inr (Some v)" "\<forall>t. v \<noteq> JStr t"
    using that by (intro F) (cases v, simp_all add: analyze_try_def)
  have c8: "analyzeGoal P (Body (Some r)) = ?failed"
    if "response_text r = Inr (Some (JStr s))" "P (strip_trail (strip_lead s)) = None"
    using that by (intro F) (simp add: analyze_try_def)
  have c9: "analyzeGoal_jsx rt P (Body (Some r)) = ?failed_jsx"
    if "response_text r = Inr (Some (JStr s))" "P s = None"
    using that by (intro G) (simp add: analyze_try_jsx_def String_opt_def)
  have c10: "analyzeGoal_jsx rt P (Body (Some r)) = ?failed_jsx"
    if "response_text r = Inr (Some (JStr s))" "P s = Some JNull"
    using that by (intro G) (simp add: analyze_try_jsx_def String_opt_def cut_subTasks_def)
  have c11: "analyzeGoal_jsx rt P (Body (Some r)) = ?failed_jsx"
    if "response_text r = Inr (Some (JStr s))" "P s = Some (JObj c)"
      "get_prop c ''subTasks'' = Some (JObj q)" "get_prop q ''length'' = Some (JNum n)" "3 < n"
    using that
    by (intro G) (simp add: analyze_try_jsx_def String_opt_def cut_subTasks_def length_exceeds3_def)
  show ?thesis
    unfolding Let_def using c1 c2 c3 c4 c5 c6 c7 c8 c9 c10 c11 by blast
qed

theorem analyze_failure_fallback_witness:
  "parse_braces ''undefined'' = None \<and>
   analyzeGoal parse_braces (Body (Some (JObj [(''error'', JStr ''quota'')]))) =
     JObj [(''category'', JStr ''NONE''), (''roadmap'', JArr []), (''subTasks'', JArr []),
           (''advice'', JStr
           [CHR 0xE5, CHR 0x88, CHR 0x86, CHR 0xE6, CHR 0x9E, CHR 0x90, CHR 0xE5, CHR 0xA4,
            CHR 0xB1, CHR 0xE6, CHR 0x95, CHR 0x97])] \<and>
   analyzeGoal_jsx rt_demo parse_braces (Body (Some (upstream_reply (JStr ''not json'')))) =
     JObj [(''category'', JStr ''NONE''), (''roadmap'', JArr []), (''subTasks'', JArr []),
           (''advice'', JStr
           [CHR 0xE5, CHR 0x88, CHR 0x86, CHR 0xE6, CHR 0x9E, CHR 0x90, CHR 0xE3, CHR 0x81,
            CHR 0xAB, CHR 0xE5, CHR 0xA4, CHR 0xB1, CHR 0xE6, CHR 0x95, CHR 0x97, CHR 0xE3,
            CHR 0x81, CHR 0x97, CHR 0xE3, CHR 0x81, CHR 0xBE, CHR 0xE3, CHR 0x81, CHR 0x97,
            CHR 0xE3, CHR 0x81, CHR 0x9F, CHR 0xE3, CHR 0x80, CHR 0x82])]"
proof -
  have a: "parse_braces ''undefined'' = None" by (simp add: parse_braces_def)
  have b: "get_prop [(''error'', JStr ''quota'')] ''candidates'' = None" by (simp add: get_prop_def)
  have c: "response_text (upstream_reply (JStr ''not json'')) = Inr (Some (JStr ''not json''))
             \<and> parse_braces ''not json'' = None"
    by (simp add: parse_braces_def)
  from analyze_failure_fallback
         [where P = parse_braces and r = "upstream_reply (JStr ''not json'')"
            and ob = "[(''error'', JStr ''quota'')]" and s = "''not json''" and rt = rt_demo]
       a b c
  show ?thesis by (simp add: Let_def fallback_msg_def fallback_msg_jsx_def)
qed

subsection \<open>Code fences around the response text\<close>

lemma strip_lead_wrapped:
  assumes "t \<noteq> []" "\<not> is_space (hd t)" "\<forall>c \<in> set w1. is_space c"
  shows "strip_lead (fence_json @ w1 @ t @ rest) = t @ rest"
proof -
  obtain a t' where t: "t = a # t'" using assms(1) by (cases t) auto
  have "dropWhile is_space (w1 @ t @ rest) = dropWhile is_space (t @ rest)"
    by (rule dropWhile_append2) (use assms(3) in auto)
  also have "\<dots> = t @ rest" using assms(2) t by simp
  finally show ?thesis by (simp add: strip_lead_def)
qed

lemma strip_trail_wrapped:
  assumes "t \<noteq> []" "\<not> is_space (last t)" "\<forall>c \<in> set w2. is_space c"
  shows "strip_trail (t @ w2 @ fence) = t"
proof -
  have "dropWhile is_space (rev w2 @ rev t) = dropWhile is_space (rev t)"
    by (rule dropWhile_append2) (use assms(3) in auto)
  also have "\<dots> = rev t"
    using assms(1,2) by (cases "rev t") (auto simp: last_rev [symmetric] simp del: last_rev)
  finally show ?thesis by (simp add: strip_trail_def)
qed

lemma strip_unfenced: "unfenced t \<Longrightarrow> strip_trail (strip_lead t) = t"
  by (simp add: unfenced_def strip_lead_def strip_trail_def)

lemma strip_fenced:
  assumes "unfenced t" "\<forall>c \<in> set w1. is_space c" "\<forall>c \<in> set w2. is_space c"
  shows "strip_trail (strip_lead (fenced w1 t w2)) = t"
  using assms strip_lead_wrapped [of t w1 "w2 @ fence"] strip_trail_wrapped [of t w2]
  by (simp add: fenced_def unfenced_def)

text \<open>
  C8, as the claim states it, fails on \<^verbatim>\<open>App.jsx\<close>: that client hands the response text
  to \<^verbatim>\<open>JSON.parse\<close> without stripping anything, so a fenced \<^verbatim>\<open>{}\<close> is rejected and
  gives the fallback, while the bare \<^verbatim>\<open>{}\<close> parses.
\<close>

theorem analyzeGoal_jsx_fence_counterexample:
  "analyzeGoal_jsx rt_demo parse_braces
     (Body (Some (upstream_reply (JStr (fenced [CHR 0x0A] ''{}'' [CHR 0x0A])))))
     \<noteq> analyzeGoal_jsx rt_demo parse_braces (Body (Some (upstream_reply (JStr ''{}''))))"
  by (simp add: analyzeGoal_jsx_def analyze_try_jsx_def parse_braces_def String_opt_def
        fenced_def fence_json_def fence_def cut_subTasks_def get_prop_def fallback_def)

text \<open>
  C8, amended. In the client with login, a response text \<open>t\<close> that is not empty, has
  no white space at either end and no fence of its own, when wrapped in a leading
  \<^verbatim>\<open>```json\<close> fence and a trailing \<^verbatim>\<open>```\<close> fence (with any white space between
  fence and text), is stripped to the same text as \<open>t\<close> before \<^verbatim>\<open>JSON.parse\<close>, and
  \<^verbatim>\<open>analyzeGoal\<close> returns the same value for both, for every behaviour of
  \<^verbatim>\<open>JSON.parse\<close>.
\<close>

theorem fence_stripped_before_parse:
  assumes "unfenced t" "\<forall>c \<in> set w1. is_space c" "\<forall>c \<in> set w2. is_space c"
  shows "strip_trail (strip_lead (fenced w1 t w2)) = strip_trail (strip_lead t) \<and>
         analyzeGoal P (Body (Some (upstream_reply (JStr (fenced w1 t w2)))))
           = analyzeGoal P (Body (Some (upstream_reply (JStr t))))"
proof -
  have ne: "fenced w1 t w2 \<noteq> []" by (simp add: fenced_def fence_def)
  have nt: "t \<noteq> []" using assms(1) by (simp add: unfenced_def)
  show ?thesis
    using strip_fenced [OF assms] strip_unfenced [OF assms(1)] ne nt
    by (simp add: analyzeGoal_def analyze_try_def truthy_opt_def)
qed

theorem fence_stripped_before_parse_witness:
  "unfenced ''{}'' \<and> is_space (CHR 0x0A) \<and>
   analyzeGoal parse_braces (Body (Some (upstream_reply (JStr (fenced [CHR 0x0A] ''{}'' [CHR 0x0A]))))) = JObj []"
proof -
  have a: "unfenced ''{}''" by (simp add: unfenced_def is_space_def fence_json_def fence_def)
  have b: "\<forall>c \<in> set [CHR 0x0A]. is_space c" by (simp add: is_space_def)
  have c: "analyzeGoal parse_braces (Body (Some (upstream_reply (JStr ''{}'')))) = JObj []"
    using strip_unfenced [OF a]
    by (simp add: analyzeGoal_def analyze_try_def truthy_opt_def parse_braces_def)
  have d: "is_space (CHR 0x0A)" by (simp add: is_space_def)
  from fence_stripped_before_parse [OF a b b, of parse_braces] a c d show ?thesis by simp
qed

subsection \<open>Habit statistics\<close>



lemma habit_loop_count:
  "0 \<le> i \<Longrightarrow> i \<le> n \<Longrightarrow>
     habit_loop dl now g n i c =
       c + length (filter (\<lambda>j. history_hit g (date_key dl (set_date_back dl now (int j))))
                     [nat i..<nat n])"
proof (induction dl now g n i c rule: habit_loop.induct)
  case (1 dl now g n i c)
  show ?case
  proof (cases "i < n")
    case True
    have upt: "[nat i..<nat n] = nat i # [nat (i + 1)..<nat n]"
      using True "1.prems" by (simp add: upt_conv_Cons nat_add_distrib)
    have "habit_loop dl now g n i c =
            habit_loop dl now g n (i + 1)
              (if history_hit g (date_key dl (set_date_back dl now i)) then c + 1 else c)"
      using True by (subst habit_loop.simps) simp
    also have "\<dots> = (if history_hit g (date_key dl (set_date_back dl now i)) then c + 1 else c)
          + length (filter (\<lambda>j. history_hit g (date_key dl (set_date_back dl now (int j))))
                      [nat (i + 1)..<nat n])"
      using True "1.prems" by (intro "1.IH") auto
    finally show ?thesis
      using "1.prems" by (simp add: upt)
  next
    case False
    then show ?thesis using "1.prems" by (subst habit_loop.simps) simp
  qed
qed


lemma habit_loop_window: "0 \<le> d \<Longrightarrow> habit_loop dl now g d 0 0 = window_count dl now g d"
  using habit_loop_count [of 0 d dl now g 0] by (simp add: window_count_def)



lemma getHabitStats_habit:
  assumes h: "\<not> not_habit goal" "parse_date dl (col (get_prop goal ''createdAt'')) = Some start"
    and d': "d = max 1 (min 30 (ceil_days now start))"
  shows "getHabitStats dl now goal =
           \<lparr> rate = Some (round_rate (window_count dl now goal d) d), daysElapsed = Some d,
             count = window_count dl now goal d \<rparr>"
proof -
  have pos: "0 < d" using d' by simp
  have loop: "habit_loop dl now goal d 0 0 = window_count dl now goal d"
    using pos by (intro habit_loop_window) simp
  have "getHabitStats dl now goal =
        \<lparr> rate = Some (round_rate (habit_loop dl now goal (max 1 (min 30 (ceil_days now start))) 0 0)
                          (max 1 (min 30 (ceil_days now start)))),
          daysElapsed = Some (max 1 (min 30 (ceil_days now start))),
          count = habit_loop dl now goal (max 1 (min 30 (ceil_days now start))) 0 0 \<rparr>"
    using h by (simp add: getHabitStats_def Let_def)
  then show ?thesis
    unfolding d' [symmetric] loop .
qed




text \<open>The steps of the loop in the examples, and the dates they are looked up under.\<close>

lemma parse_spring:
  "parse_date dates_new_york (col (get_prop goal_spring ''createdAt'')) = Some 1772841600000"
  unfolding dates_new_york_def dates.simps by code_simp

lemma parse_autumn:
  "parse_date dates_new_york (col (get_prop goal_autumn ''createdAt'')) = Some 1793491200000"
  unfolding dates_new_york_def dates.simps by code_simp


lemma keys_spring:
  "date_key dates_new_york (set_date_back dates_new_york 1773012600000 (int 0)) = ''2026-03-08''"
  "date_key dates_new_york (set_date_back dates_new_york 1773012600000 (int 1)) = ''2026-03-08''"
  unfolding dates_new_york_def set_date_back_def day_ms_def dates.simps by code_simp+

lemma keys_autumn:
  "date_key dates_new_york (set_date_back dates_new_york 1793665800000 (int 0)) = ''2026-11-03''"
  "date_key dates_new_york (set_date_back dates_new_york 1793665800000 (int 1)) = ''2026-11-02''"
  "date_key dates_new_york (set_date_back dates_new_york 1793665800000 (int 2)) = ''2026-10-31''"
  unfolding dates_new_york_def set_date_back_def day_ms_def dates.simps by code_simp+

lemma hits_spring: "\<not> history_hit goal_spring ''2026-03-08''"
  by code_simp

lemma hits_autumn:
  "history_hit goal_autumn ''2026-11-03''" "history_hit goal_autumn ''2026-11-02''"
  "\<not> history_hit goal_autumn ''2026-10-31''"
  by code_simp+

lemma window_spring: "window_count dates_new_york 1773012600000 goal_spring 2 = 0"
proof -
  have u: "[0..<nat 2] = [0, 1]" by (simp add: upt_rec)
  show ?thesis
    unfolding window_count_def u using keys_spring hits_spring by simp
qed

lemma window_autumn: "window_count dates_new_york 1793665800000 goal_autumn 3 = 2"
proof -
  have u: "[0..<nat 3] = [0, 1, 2]" by (simp add: upt_rec numeral_3_eq_3)
  show ?thesis
    unfolding window_count_def u using keys_autumn hits_autumn by simp
qed

lemma habit_spring: "\<not> not_habit goal_spring"
  by code_simp

lemma habit_autumn: "\<not> not_habit goal_autumn"
  by code_simp


text \<open>
  Where the offset of the time zone changes inside the window, a step back of one local
  calendar day is not a step of 24 hours, and a date is looked up twice or not at all. In
  New York on 8 March 2026 at 23:30 UTC the steps 0 and 1 both fall on the UTC date
  2026-03-08, so a habit marked on 2026-03-07 only counts 0 of 2; on 3 November 2026 at
  00:30 UTC the step 2 falls on 2026-10-31, so a habit marked on the three days from
  2026-11-01 counts 2 of 3.
\<close>

lemma getHabitStats_spring:
  "getHabitStats dates_new_york 1773012600000 goal_spring
     = \<lparr> rate = Some 0, daysElapsed = Some 2, count = 0 \<rparr>"
proof -
  have d: "(2::int) = max 1 (min 30 (ceil_days 1773012600000 1772841600000))"
    by (simp add: ceil_days_def day_ms_def)
  have r: "round_rate 0 2 = 0" by (simp add: round_rate_def)
  show ?thesis
    using getHabitStats_habit [where dl = dates_new_york, OF habit_spring parse_spring d]
    unfolding window_spring r .
qed

lemma getHabitStats_autumn:
  "getHabitStats dates_new_york 1793665800000 goal_autumn
     = \<lparr> rate = Some 67, daysElapsed = Some 3, count = 2 \<rparr>"
proof -
  have d: "(3::int) = max 1 (min 30 (ceil_days 1793665800000 1793491200000))"
    by (simp add: ceil_days_def day_ms_def)
  have r: "round_rate 2 3 = 67" by (simp add: round_rate_def)
  show ?thesis
    using getHabitStats_habit [where dl = dates_new_york, OF habit_autumn parse_autumn d]
    unfolding window_autumn r .
qed







subsection \<open>Registering and logging in\<close>














subsection \<open>Saving and loading again\<close>








lemma r_id_mk_row [simp]: "r_id (mk_row rt sq u g) = goal_id rt g"
  by (simp add: mk_row_def goal_id_def)










text \<open>The order of the list is not kept either: the query orders by \<open>created_at\<close>,
  latest first, so two goals sent oldest first come back latest first.\<close>

lemma replace_then_load_order:
  "get_goals (db_after (post_goals rt_demo (Some (db_empty Sqlite)) (Some ''ann'')
                          (Some (JArr [JObj goal_run, JObj goal_walk])))) (Some ''ann'')
     = Inr [goal_walk_loaded, goal_run_loaded]"
  "get_goals (db_after (post_goals rt_demo (Some (db_empty Supabase)) (Some ''ann'')
                          (Some (JArr [JObj goal_run, JObj goal_walk])))) (Some ''ann'')
     = Inr [goal_walk_loaded, goal_run_loaded]"
  by code_simp+



end
